theory Spec2Isabelle
  imports Complex_Main
begin

section \<open>Life-cycle assessment of a DAC / electrolysis / Fischer-Tropsch aviation fuel\<close>

text \<open>
  A shallow embedding of the class \<open>SAF_LCA_Model\<close> of \<open>LCA_calculation.py\<close>.

  \<^item> Python floats are idealised as \<^typ>\<open>real\<close>: the arithmetic is exact, there is no
    rounding, overflow, infinity or NaN. A Python division \<open>a / b\<close> raises
    \<open>ZeroDivisionError\<close> when \<open>b\<close> is zero (also for floats), which the model writes out.
  \<^item> A stage dictionary is either empty (\<open>{}\<close>, as \<open>__init__\<close> leaves it) or holds all the
    keys its setter writes: it is an \<open>option\<close> of a record, \<open>None\<close> being the empty
    dictionary. The two optional keys of the conversion dictionary are \<open>option\<close> fields.
  \<^item> A result dictionary is an association list in insertion order.
  \<^item> An exception is a value of type \<open>error\<close>; a method that can raise returns
    \<open>error + 'a\<close>, and, where the object may already have been changed when the
    exception leaves the method, the object as well.
  \<^item> \<open>print\<close> appends a line to the field \<open>stdout\<close>.
  \<^item> A string is a list of bytes; the arrow of the error message is its UTF-8 encoding.
\<close>

subsection \<open>Errors and Python primitives\<close>

datatype error = ValueError string | ZeroDivisionError | KeyError string

definition py_div :: "real \<Rightarrow> real \<Rightarrow> error + real" where
  "py_div a b = (if b = 0 then Inl ZeroDivisionError else Inr (a / b))"

definition bindE :: "error + 'a \<Rightarrow> ('a \<Rightarrow> error + 'b) \<Rightarrow> error + 'b" where
  "bindE m f = (case m of Inl e \<Rightarrow> Inl e | Inr x \<Rightarrow> f x)"

text \<open>\<open>d[k]\<close> on a dictionary: \<open>KeyError\<close> when the key is absent.\<close>

definition dict_index :: "(string \<times> 'a) list \<Rightarrow> string \<Rightarrow> error + 'a" where
  "dict_index d k = (case map_of d k of None \<Rightarrow> Inl (KeyError k) | Some v \<Rightarrow> Inr v)"

text \<open>\<open>d.get(k, default)\<close> on an optional key.\<close>

definition get_default :: "'a option \<Rightarrow> 'a \<Rightarrow> 'a" where
  "get_default v d = (case v of None \<Rightarrow> d | Some x \<Rightarrow> x)"

subsection \<open>Data model\<close>

record feedstock =
  fs_type :: string
  fs_ghg_emissions :: real
  fs_energy_input :: real
  fs_water_usage :: real
  fs_land_use :: real
  fs_yield_rate :: real

record conversion =
  technology :: string
  efficiency :: real
  cv_ghg_emissions :: real
  cv_energy_input :: real
  cv_water_usage :: real
  syngas_requirement :: "real option"
  co_h2_ratio :: "real option"

record distribution =
  transport_distance :: real
  transport_mode :: string
  ds_ghg_emissions :: real
  ds_energy_input :: real

record use_phase =
  combustion_emissions :: real
  energy_density :: real

record carbon_capture =
  capture_efficiency :: real
  energy_requirement :: real
  cc_ghg_emissions :: real
  cc_water_usage :: real
  co2_capture_rate :: real

record electrolysis =
  co2_electrolysis_efficiency :: real
  water_electrolysis_efficiency :: real
  electricity_source :: string
  electricity_carbon_intensity :: real
  energy_input_co :: real
  energy_input_h2 :: real
  el_water_usage :: real

record lca_results =
  ghg_emissions :: "(string \<times> real) list"
  energy_consumption :: "(string \<times> real) list"
  water_usage :: "(string \<times> real) list"
  land_use :: "(string \<times> real) list"

record saf_lca_model =
  pathway :: string
  functional_unit :: string
  co2_source :: "string option"
  feedstock_data :: "feedstock option"
  conversion_data :: "conversion option"
  distribution_data :: "distribution option"
  use_phase_data :: "use_phase option"
  carbon_capture_data :: "carbon_capture option"
  electrolysis_data :: "electrolysis option"
  ghg_factors :: "(string \<times> real) list"
  results :: lca_results
  stdout :: "string list"

subsection \<open>Construction and the setters\<close>

definition SAF_LCA_Model :: "string \<Rightarrow> string \<Rightarrow> string option \<Rightarrow> saf_lca_model" where
  "SAF_LCA_Model pw fu src =
     \<lparr> pathway = pw, functional_unit = fu, co2_source = src,
       feedstock_data = None, conversion_data = None, distribution_data = None,
       use_phase_data = None, carbon_capture_data = None, electrolysis_data = None,
       ghg_factors = [(''CO2'', 1), (''CH4'', 28), (''N2O'', 265)],
       results = \<lparr> ghg_emissions = [], energy_consumption = [], water_usage = [],
                   land_use = [] \<rparr>,
       stdout = [] \<rparr>"

definition set_feedstock_data ::
  "string \<Rightarrow> real \<Rightarrow> real \<Rightarrow> real \<Rightarrow> real \<Rightarrow> real \<Rightarrow> saf_lca_model \<Rightarrow> saf_lca_model" where
  "set_feedstock_data feedstock_type ghg energy_input water land yield_rate s =
     s\<lparr>feedstock_data := Some \<lparr> fs_type = feedstock_type, fs_ghg_emissions = ghg,
          fs_energy_input = energy_input, fs_water_usage = water, fs_land_use = land,
          fs_yield_rate = yield_rate \<rparr>\<rparr>"

definition set_conversion_data ::
  "string \<Rightarrow> real \<Rightarrow> real \<Rightarrow> real \<Rightarrow> real \<Rightarrow> real option \<Rightarrow> real option
     \<Rightarrow> saf_lca_model \<Rightarrow> saf_lca_model" where
  "set_conversion_data tech eff ghg energy_input water syngas ratio s =
     s\<lparr>conversion_data := Some \<lparr> technology = tech, efficiency = eff,
          cv_ghg_emissions = ghg, cv_energy_input = energy_input, cv_water_usage = water,
          syngas_requirement = syngas, co_h2_ratio = ratio \<rparr>\<rparr>"

definition set_distribution_data ::
  "real \<Rightarrow> string \<Rightarrow> real \<Rightarrow> real \<Rightarrow> saf_lca_model \<Rightarrow> saf_lca_model" where
  "set_distribution_data distance mode ghg energy_input s =
     s\<lparr>distribution_data := Some \<lparr> transport_distance = distance, transport_mode = mode,
          ds_ghg_emissions = ghg, ds_energy_input = energy_input \<rparr>\<rparr>"

definition set_use_phase_data :: "real \<Rightarrow> real \<Rightarrow> saf_lca_model \<Rightarrow> saf_lca_model" where
  "set_use_phase_data combustion density s =
     s\<lparr>use_phase_data := Some \<lparr> combustion_emissions = combustion,
          energy_density = density \<rparr>\<rparr>"

definition set_carbon_capture_data ::
  "real \<Rightarrow> real \<Rightarrow> real \<Rightarrow> real \<Rightarrow> real \<Rightarrow> saf_lca_model \<Rightarrow> saf_lca_model" where
  "set_carbon_capture_data eff energy ghg water rate s =
     s\<lparr>carbon_capture_data := Some \<lparr> capture_efficiency = eff, energy_requirement = energy,
          cc_ghg_emissions = ghg, cc_water_usage = water, co2_capture_rate = rate \<rparr>\<rparr>"

text \<open>The table of carbon intensities in \<open>set_electrolysis_data\<close> (kg CO2e per kWh).\<close>

definition electricity_carbon_intensities :: "(string \<times> real) list" where
  "electricity_carbon_intensities =
     [(''grid_global'', 0.475), (''grid_eu'', 0.253), (''grid_china'', 0.638),
      (''grid_us'', 0.389), (''natural_gas'', 0.410), (''coal'', 0.820),
      (''solar'', 0.048), (''wind'', 0.011), (''hydro'', 0.024), (''nuclear'', 0.012),
      (''biomass'', 0.230), (''renewable_mix'', 0.030), (''low_carbon_mix'', 0.100),
      (''renewable'', 0.020)]"

definition unrecognized_warning :: "string \<Rightarrow> string" where
  "unrecognized_warning src =
     ''Warning: Electricity source '' @ [CHR 0x27] @ src @ [CHR 0x27]
       @ '' not recognized. Using default value.''"

text \<open>
  The intensity that \<open>set_electrolysis_data\<close> stores, with the lines it prints: the
  explicit value when there is one, else the table's value for the source, else the
  table's value for \<open>renewable\<close> and a warning.
\<close>

definition resolve_intensity :: "string \<Rightarrow> real option \<Rightarrow> error + real \<times> string list" where
  "resolve_intensity src intensity =
     (case intensity of
        Some v \<Rightarrow> Inr (v, [])
      | None \<Rightarrow>
          (case map_of electricity_carbon_intensities src of
             Some v \<Rightarrow> Inr (v, [])
           | None \<Rightarrow>
               bindE (dict_index electricity_carbon_intensities ''renewable'')
                 (\<lambda>v. Inr (v, [unrecognized_warning src]))))"

definition set_electrolysis_data ::
  "real \<Rightarrow> real \<Rightarrow> string \<Rightarrow> real \<Rightarrow> real \<Rightarrow> real \<Rightarrow> real option
     \<Rightarrow> saf_lca_model \<Rightarrow> error + saf_lca_model" where
  "set_electrolysis_data co2_eff water_eff src e_co e_h2 water intensity s =
     bindE (resolve_intensity src intensity) (\<lambda>(v, out).
       Inr (s\<lparr>electrolysis_data := Some \<lparr> co2_electrolysis_efficiency = co2_eff,
                 water_electrolysis_efficiency = water_eff, electricity_source = src,
                 electricity_carbon_intensity = v, energy_input_co = e_co,
                 energy_input_h2 = e_h2, el_water_usage = water \<rparr>,
              stdout := stdout s @ out\<rparr>))"

subsection \<open>The calculation\<close>

definition missing_data_message :: string where
  "missing_data_message =
     ''Missing required data for LCA calculation for DAC '' @ [CHR 0xE2, CHR 0x86, CHR 0x92]
       @ '' Electrolysis '' @ [CHR 0xE2, CHR 0x86, CHR 0x92] @ '' FT pathway''"

text \<open>Lines 419 to 428: the factor that normalises to the functional unit.\<close>

definition normalization_factor :: "string \<Rightarrow> real \<Rightarrow> error + real" where
  "normalization_factor fu density =
     (if fu = ''MJ'' then py_div 1 density
      else if fu = ''kg'' then Inr 1
      else if fu = ''L'' then Inr 0.8
      else Inl (ValueError (''Unsupported functional unit: '' @ fu)))"

text \<open>
  Lines 430 to 517, for the five stage dictionaries that the check of line 412 found
  non-empty. Every division of the source is a \<open>py_div\<close>, in the source's order; the
  divisions by the constants 100 and 3.6 cannot fail. All of them come before the first
  assignment to \<open>self.results\<close>, so an exception leaves the object as it was.
\<close>

definition calculate_stages ::
  "string \<Rightarrow> carbon_capture \<Rightarrow> electrolysis \<Rightarrow> conversion \<Rightarrow> distribution \<Rightarrow> use_phase
     \<Rightarrow> error + lca_results" where
  "calculate_stages fu cc el cv ds up =
     bindE (normalization_factor fu (energy_density up)) (\<lambda>nf.
     bindE (py_div (co2_capture_rate cc) (capture_efficiency cc / 100)) (\<lambda>actual_co2_needed.
     let carbon_capture_ghg = cc_ghg_emissions cc * actual_co2_needed * nf;
         elec_intensity_mj = electricity_carbon_intensity el / 3.6;
         ratio = get_default (co_h2_ratio cv) 1.0;
         total_syngas_needed = get_default (syngas_requirement cv) 2.5 * nf
     in
     bindE (py_div ratio (1 + ratio)) (\<lambda>co_fraction.
     let co_needed = total_syngas_needed * co_fraction in
     bindE (py_div 1 (1 + ratio)) (\<lambda>h2_fraction.
     let h2_needed = total_syngas_needed * h2_fraction in
     bindE (py_div co_needed (co2_electrolysis_efficiency el / 100)) (\<lambda>actual_co_needed.
     bindE (py_div h2_needed (water_electrolysis_efficiency el / 100)) (\<lambda>actual_h2_needed.
     let co_emissions = actual_co_needed * energy_input_co el * elec_intensity_mj;
         h2_emissions = actual_h2_needed * energy_input_h2 el * elec_intensity_mj;
         electrolysis_ghg = co_emissions + h2_emissions;
         conversion_ghg = cv_ghg_emissions cv * nf;
         distribution_ghg = ds_ghg_emissions ds * nf;
         use_phase_ghg = combustion_emissions up * nf;
         total_ghg = carbon_capture_ghg + electrolysis_ghg + conversion_ghg
                       + distribution_ghg + use_phase_ghg;
         carbon_capture_energy = (energy_requirement cc * actual_co2_needed) * nf;
         co_energy = actual_co_needed * energy_input_co el;
         h2_energy = actual_h2_needed * energy_input_h2 el;
         electrolysis_energy = (co_energy + h2_energy) * nf;
         conversion_energy = cv_energy_input cv * nf;
         distribution_energy = ds_energy_input ds * nf;
         total_energy = carbon_capture_energy + electrolysis_energy + conversion_energy
                          + distribution_energy;
         carbon_capture_water = cc_water_usage cc * actual_co2_needed * nf;
         electrolysis_water = el_water_usage el * total_syngas_needed;
         conversion_water = cv_water_usage cv * nf
     in
     Inr \<lparr> ghg_emissions =
             [(''carbon_capture'', carbon_capture_ghg), (''electrolysis'', electrolysis_ghg),
              (''conversion'', conversion_ghg), (''distribution'', distribution_ghg),
              (''use_phase'', use_phase_ghg), (''total'', total_ghg)],
           energy_consumption =
             [(''carbon_capture'', carbon_capture_energy),
              (''electrolysis'', electrolysis_energy), (''conversion'', conversion_energy),
              (''distribution'', distribution_energy), (''total'', total_energy)],
           water_usage =
             [(''carbon_capture'', carbon_capture_water),
              (''electrolysis'', electrolysis_water), (''conversion'', conversion_water),
              (''total'', carbon_capture_water + electrolysis_water + conversion_water)],
           land_use = [(''total'', 0)] \<rparr>))))))"

text \<open>
  \<open>calculate_lca\<close>: the check of line 412 (an empty dictionary is false), then the
  stages; the new object has the four result dictionaries replaced.
\<close>

definition calculate_lca :: "saf_lca_model \<Rightarrow> error + saf_lca_model" where
  "calculate_lca s =
     (case carbon_capture_data s of
        None \<Rightarrow> Inl (ValueError missing_data_message)
      | Some cc \<Rightarrow>
     (case electrolysis_data s of
        None \<Rightarrow> Inl (ValueError missing_data_message)
      | Some el \<Rightarrow>
     (case conversion_data s of
        None \<Rightarrow> Inl (ValueError missing_data_message)
      | Some cv \<Rightarrow>
     (case distribution_data s of
        None \<Rightarrow> Inl (ValueError missing_data_message)
      | Some ds \<Rightarrow>
     (case use_phase_data s of
        None \<Rightarrow> Inl (ValueError missing_data_message)
      | Some up \<Rightarrow>
          bindE (calculate_stages (functional_unit s) cc el cv ds up)
            (\<lambda>r. Inr (s\<lparr>results := r\<rparr>)))))))"

subsection \<open>Emission reduction\<close>

text \<open>
  Lines 539 to 543 (and again 290 to 294): the total in g CO2e per MJ. A missing key of
  a dictionary is a \<open>KeyError\<close>.
\<close>

definition saf_emissions_mj :: "saf_lca_model \<Rightarrow> error + real" where
  "saf_emissions_mj s =
     (if functional_unit s = ''MJ''
      then bindE (dict_index (ghg_emissions (results s)) ''total'') (\<lambda>t. Inr (t * 1000))
      else (case use_phase_data s of
              None \<Rightarrow> Inl (KeyError ''energy_density'')
            | Some up \<Rightarrow>
                bindE (dict_index (ghg_emissions (results s)) ''total'')
                  (\<lambda>t. py_div (t * 1000) (energy_density up))))"

text \<open>
  The argument is \<open>None\<close> when the caller leaves \<open>fossil_jet_emissions\<close> out. The
  object comes back with the value or the exception: \<open>calculate_lca\<close> may have filled
  the results before a later division raises.
\<close>

definition calculate_emission_reduction ::
  "real option \<Rightarrow> saf_lca_model \<Rightarrow> saf_lca_model \<times> (error + real)" where
  "calculate_emission_reduction fossil s =
     (let fossil_jet_emissions = get_default fossil 89.0 in
      case (if ghg_emissions (results s) = [] then calculate_lca s else Inr s) of
        Inl e \<Rightarrow> (s, Inl e)
      | Inr s1 \<Rightarrow>
          (s1, bindE (saf_emissions_mj s1) (\<lambda>saf_emissions.
               bindE (py_div (fossil_jet_emissions - saf_emissions) fossil_jet_emissions)
                 (\<lambda>q. Inr (q * 100)))))"

subsection \<open>The sweep over electricity sources\<close>

record analysis_row =
  row_electricity_source :: string
  carbon_intensity :: real
  saf_emissions_mjbasis :: real
  emission_reduction :: real
  electrolysis_emissions :: real
  total_emissions :: real

record analysis_frame_row = analysis_row +
  electrolysis_contribution :: "real option"

definition default_electricity_sources :: "string list" where
  "default_electricity_sources =
     [''renewable_mix'', ''grid_global'', ''grid_eu'', ''grid_us'', ''grid_china'',
      ''natural_gas'', ''coal'', ''solar'', ''wind'', ''hydro'', ''renewable'']"

text \<open>Line 304: the electrolysis emissions on the MJ basis.\<close>

definition electrolysis_emissions_mj :: "saf_lca_model \<Rightarrow> error + real" where
  "electrolysis_emissions_mj s =
     (if functional_unit s \<noteq> ''MJ''
      then bindE (dict_index (ghg_emissions (results s)) ''electrolysis'') (\<lambda>g.
             (case use_phase_data s of
                None \<Rightarrow> Inl (KeyError ''energy_density'')
              | Some up \<Rightarrow> py_div (g * 1000) (energy_density up)))
      else bindE (dict_index (ghg_emissions (results s)) ''electrolysis'')
             (\<lambda>g. Inr (g * 1000)))"

text \<open>Lines 289 to 306: the row of one scenario, from the object after its calculation.\<close>

definition scenario_row :: "string \<Rightarrow> saf_lca_model \<Rightarrow> error + analysis_row" where
  "scenario_row source s =
     bindE (saf_emissions_mj s) (\<lambda>saf_emissions.
     let reduction = (89.0 - saf_emissions) / 89.0 * 100 in
     (case electrolysis_data s of
        None \<Rightarrow> Inl (KeyError ''electricity_carbon_intensity'')
      | Some el \<Rightarrow>
          bindE (electrolysis_emissions_mj s) (\<lambda>ee.
            Inr \<lparr> row_electricity_source = source,
                  carbon_intensity = electricity_carbon_intensity el,
                  saf_emissions_mjbasis = saf_emissions,
                  emission_reduction = reduction,
                  electrolysis_emissions = ee,
                  total_emissions = saf_emissions \<rparr>)))"

text \<open>
  Lines 275 to 306, one pass of the loop. There is no handler around it: an exception
  leaves the method with the object as the pass has changed it so far.
\<close>

definition sweep_step ::
  "string \<Rightarrow> real \<Rightarrow> real \<Rightarrow> saf_lca_model \<Rightarrow> saf_lca_model \<times> (error + analysis_row)" where
  "sweep_step source original_co original_h2 s =
     (case electrolysis_data s of
        None \<Rightarrow> (s, Inl (KeyError ''co2_electrolysis_efficiency''))
      | Some el \<Rightarrow>
     (case set_electrolysis_data (co2_electrolysis_efficiency el)
             (water_electrolysis_efficiency el) source original_co original_h2
             (el_water_usage el) None s of
        Inl e \<Rightarrow> (s, Inl e)
      | Inr s1 \<Rightarrow>
     (case calculate_lca s1 of
        Inl e \<Rightarrow> (s1, Inl e)
      | Inr s2 \<Rightarrow> (s2, scenario_row source s2))))"

fun sweep ::
  "string list \<Rightarrow> real \<Rightarrow> real \<Rightarrow> saf_lca_model \<Rightarrow> analysis_row list
     \<Rightarrow> saf_lca_model \<times> (error + analysis_row list)" where
  "sweep [] original_co original_h2 s rows = (s, Inr rows)"
| "sweep (source # rest) original_co original_h2 s rows =
     (case sweep_step source original_co original_h2 s of
        (s', Inl e) \<Rightarrow> (s', Inl e)
      | (s', Inr row) \<Rightarrow> sweep rest original_co original_h2 s' (rows @ [row]))"

text \<open>
  Lines 322 to 326, the pandas part. A frame built from no rows has no columns, so
  reading the column \<open>electrolysis_emissions\<close> is a \<open>KeyError\<close>. Dividing a float
  column by a zero does not raise: the entry is infinite or NaN, written \<open>None\<close> here.
\<close>

definition add_contribution :: "analysis_row \<Rightarrow> analysis_frame_row" where
  "add_contribution r =
     analysis_row.extend r
       \<lparr> electrolysis_contribution =
           (if total_emissions r = 0 then None
            else Some (electrolysis_emissions r / total_emissions r * 100)) \<rparr>"

definition data_frame :: "analysis_row list \<Rightarrow> error + analysis_frame_row list" where
  "data_frame rows =
     (if rows = [] then Inl (KeyError ''electrolysis_emissions'')
      else Inr (map add_contribution rows))"

text \<open>
  \<open>analyze_electricity_sources\<close>; the argument is \<open>None\<close> when the caller gives no
  list. The originals are read with \<open>get\<close> and its defaults, the loop runs, and only
  after a loop that has not raised are the originals written back (lines 308 to 320).
\<close>

definition analyze_electricity_sources ::
  "string list option \<Rightarrow> saf_lca_model
     \<Rightarrow> saf_lca_model \<times> (error + analysis_frame_row list)" where
  "analyze_electricity_sources electricity_sources s =
     (let sources = get_default electricity_sources default_electricity_sources;
          original_source = get_default (map_option electricity_source (electrolysis_data s))
                              ''renewable'';
          original_intensity =
            get_default (map_option electricity_carbon_intensity (electrolysis_data s)) 0.020;
          original_co = get_default (map_option energy_input_co (electrolysis_data s)) 28.0;
          original_h2 = get_default (map_option energy_input_h2 (electrolysis_data s)) 55.0
      in
      case sweep sources original_co original_h2 s [] of
        (s1, Inl e) \<Rightarrow> (s1, Inl e)
      | (s1, Inr rows) \<Rightarrow>
     (case electrolysis_data s1 of
        None \<Rightarrow> (s1, Inl (KeyError ''co2_electrolysis_efficiency''))
      | Some el \<Rightarrow>
     (case set_electrolysis_data (co2_electrolysis_efficiency el)
             (water_electrolysis_efficiency el) original_source original_co original_h2
             (el_water_usage el) (Some original_intensity) s1 of
        Inl e \<Rightarrow> (s1, Inl e)
      | Inr s2 \<Rightarrow>
     (case calculate_lca s2 of
        Inl e \<Rightarrow> (s2, Inl e)
      | Inr s3 \<Rightarrow> (s3, data_frame rows)))))"

subsection \<open>The parameter set of the example run\<close>

text \<open>The setter calls of the script's main block, for a given functional unit.\<close>

definition example_model :: "string \<Rightarrow> error + saf_lca_model" where
  "example_model fu =
     bindE (set_electrolysis_data 65.0 75.0 ''renewable'' 28.0 55.0 20.0 None
              (set_carbon_capture_data 80.0 30.0 0.08 5.0 3.1
                (set_use_phase_data 0.0 43.0 (SAF_LCA_Model ''FT'' fu (Some ''DAC'')))))
       (\<lambda>s. Inr (set_distribution_data 500.0 ''truck'' 0.05 2.0
                (set_conversion_data ''Fischer-Tropsch'' 0.65 0.2 25.0 5.0
                   (Some 2.13) (Some 0.923) s)))"

text \<open>The object those calls build, written out.\<close>

definition example_state :: "string \<Rightarrow> saf_lca_model" where
  "example_state fu =
     \<lparr> pathway = ''FT'', functional_unit = fu, co2_source = Some ''DAC'',
       feedstock_data = None,
       conversion_data = Some \<lparr> technology = ''Fischer-Tropsch'', efficiency = 0.65,
         cv_ghg_emissions = 0.2, cv_energy_input = 25.0, cv_water_usage = 5.0,
         syngas_requirement = Some 2.13, co_h2_ratio = Some 0.923 \<rparr>,
       distribution_data = Some \<lparr> transport_distance = 500.0, transport_mode = ''truck'',
         ds_ghg_emissions = 0.05, ds_energy_input = 2.0 \<rparr>,
       use_phase_data = Some \<lparr> combustion_emissions = 0.0, energy_density = 43.0 \<rparr>,
       carbon_capture_data = Some \<lparr> capture_efficiency = 80.0, energy_requirement = 30.0,
         cc_ghg_emissions = 0.08, cc_water_usage = 5.0, co2_capture_rate = 3.1 \<rparr>,
       electrolysis_data = Some \<lparr> co2_electrolysis_efficiency = 65.0,
         water_electrolysis_efficiency = 75.0, electricity_source = ''renewable'',
         electricity_carbon_intensity = 0.020, energy_input_co = 28.0,
         energy_input_h2 = 55.0, el_water_usage = 20.0 \<rparr>,
       ghg_factors = [(''CO2'', 1), (''CH4'', 28), (''N2O'', 265)],
       results = \<lparr> ghg_emissions = [], energy_consumption = [], water_usage = [],
                   land_use = [] \<rparr>,
       stdout = [] \<rparr>"


text \<open>
  A parameter set whose total is 0.02 kg CO2e per MJ, that is 20 g CO2e per MJ: only the
  conversion stage emits (1 kg CO2e per kg fuel), at 50 MJ per kg.
\<close>

definition twenty_state :: saf_lca_model where
  "twenty_state =
     set_distribution_data 500.0 ''truck'' 0.0 2.0
       (set_conversion_data ''Fischer-Tropsch'' 0.65 1.0 25.0 5.0 (Some 0.0) (Some 1.0)
         (set_carbon_capture_data 80.0 30.0 0.0 5.0 3.1
           (set_use_phase_data 0.0 50.0 (example_state ''MJ''))))"

section \<open>Properties\<close>

subsection \<open>Auxiliary facts\<close>

lemma example_model_state: "example_model fu = Inr (example_state fu)"
  by (simp add: example_model_def example_state_def set_electrolysis_data_def
      resolve_intensity_def bindE_def electricity_carbon_intensities_def dict_index_def
      set_distribution_data_def set_conversion_data_def set_carbon_capture_data_def
      set_use_phase_data_def SAF_LCA_Model_def)

lemma example_state_simps:
  "functional_unit (example_state fu) = fu"
  "carbon_capture_data (example_state fu) =
     Some \<lparr> capture_efficiency = 80.0, energy_requirement = 30.0,
         cc_ghg_emissions = 0.08, cc_water_usage = 5.0, co2_capture_rate = 3.1 \<rparr>"
  "electrolysis_data (example_state fu) =
     Some \<lparr> co2_electrolysis_efficiency = 65.0,
         water_electrolysis_efficiency = 75.0, electricity_source = ''renewable'',
         electricity_carbon_intensity = 0.020, energy_input_co = 28.0,
         energy_input_h2 = 55.0, el_water_usage = 20.0 \<rparr>"
  "conversion_data (example_state fu) =
     Some \<lparr> technology = ''Fischer-Tropsch'', efficiency = 0.65,
         cv_ghg_emissions = 0.2, cv_energy_input = 25.0, cv_water_usage = 5.0,
         syngas_requirement = Some 2.13, co_h2_ratio = Some 0.923 \<rparr>"
  "distribution_data (example_state fu) =
     Some \<lparr> transport_distance = 500.0, transport_mode = ''truck'',
         ds_ghg_emissions = 0.05, ds_energy_input = 2.0 \<rparr>"
  "use_phase_data (example_state fu) =
     Some \<lparr> combustion_emissions = 0.0, energy_density = 43.0 \<rparr>"
  "results (example_state fu) =
     \<lparr> ghg_emissions = [], energy_consumption = [], water_usage = [], land_use = [] \<rparr>"
  "stdout (example_state fu) = []"
  by (simp_all add: example_state_def)

lemma bindE_Inl [simp]: "bindE (Inl e) f = Inl e"
  by (simp add: bindE_def)

lemma bindE_Inr [simp]: "bindE (Inr x) f = f x"
  by (simp add: bindE_def)

lemma bindE_weak_cong [cong]: "m = m' \<Longrightarrow> bindE m f = bindE m' f"
  by simp

lemma py_div_zero [simp]: "py_div a 0 = Inl ZeroDivisionError"
  by (simp add: py_div_def)

lemma py_div_nonzero [simp]: "b \<noteq> 0 \<Longrightarrow> py_div a b = Inr (a / b)"
  by (simp add: py_div_def)

lemma calculate_stages_no_factor:
  assumes "normalization_factor fu (energy_density up) = Inl e"
  shows "calculate_stages fu cc el cv ds up = Inl e"
  using assms by (simp add: calculate_stages_def)

lemma calculate_stages_zero_division:
  assumes "normalization_factor fu (energy_density up) = Inr nf"
    and "capture_efficiency cc = 0 \<or> 1 + get_default (co_h2_ratio cv) 1 = 0 \<or>
         co2_electrolysis_efficiency el = 0 \<or> water_electrolysis_efficiency el = 0"
  shows "calculate_stages fu cc el cv ds up = Inl ZeroDivisionError"
proof -
  have a: "capture_efficiency cc = 0 \<Longrightarrow> ?thesis"
    using assms(1) by (simp add: calculate_stages_def)
  have b: "capture_efficiency cc \<noteq> 0 \<Longrightarrow> 1 + get_default (co_h2_ratio cv) 1 = 0 \<Longrightarrow> ?thesis"
    using assms(1) by (simp add: calculate_stages_def Let_def)
  have c: "capture_efficiency cc \<noteq> 0 \<Longrightarrow> 1 + get_default (co_h2_ratio cv) 1 \<noteq> 0 \<Longrightarrow>
     co2_electrolysis_efficiency el = 0 \<Longrightarrow> ?thesis"
    using assms(1) by (simp add: calculate_stages_def Let_def)
  have d: "capture_efficiency cc \<noteq> 0 \<Longrightarrow> 1 + get_default (co_h2_ratio cv) 1 \<noteq> 0 \<Longrightarrow>
     co2_electrolysis_efficiency el \<noteq> 0 \<Longrightarrow> water_electrolysis_efficiency el = 0 \<Longrightarrow> ?thesis"
    using assms(1) by (simp add: calculate_stages_def Let_def)
  from assms(2) a b c d show ?thesis by blast
qed

lemma calculate_lca_complete:
  assumes "carbon_capture_data s = Some cc" and "electrolysis_data s = Some el"
    and "conversion_data s = Some cv" and "distribution_data s = Some ds"
    and "use_phase_data s = Some up"
  shows "calculate_lca s =
    bindE (calculate_stages (functional_unit s) cc el cv ds up) (\<lambda>r. Inr (s\<lparr>results := r\<rparr>))"
  using assms by (simp add: calculate_lca_def)

lemma calculate_lca_incomplete:
  assumes "carbon_capture_data s = None \<or> electrolysis_data s = None \<or>
    conversion_data s = None \<or> distribution_data s = None \<or> use_phase_data s = None"
  shows "calculate_lca s = Inl (ValueError missing_data_message)"
  using assms by (auto simp add: calculate_lca_def split: option.splits)

lemma calculate_stages_value:
  assumes "normalization_factor fu (energy_density up) = Inr nf"
    and "capture_efficiency cc \<noteq> 0"
    and "1 + get_default (co_h2_ratio cv) 1 \<noteq> 0"
    and "co2_electrolysis_efficiency el \<noteq> 0"
    and "water_electrolysis_efficiency el \<noteq> 0"
  shows "calculate_stages fu cc el cv ds up =
    Inr (let actual_co2_needed = co2_capture_rate cc / (capture_efficiency cc / 100);
         carbon_capture_ghg = cc_ghg_emissions cc * actual_co2_needed * nf;
         elec_intensity_mj = electricity_carbon_intensity el / 3.6;
         ratio = get_default (co_h2_ratio cv) 1;
         total_syngas_needed = get_default (syngas_requirement cv) 2.5 * nf;
         co_needed = total_syngas_needed * (ratio / (1 + ratio));
         h2_needed = total_syngas_needed * (1 / (1 + ratio));
         actual_co_needed = co_needed / (co2_electrolysis_efficiency el / 100);
         actual_h2_needed = h2_needed / (water_electrolysis_efficiency el / 100);
         co_emissions = actual_co_needed * energy_input_co el * elec_intensity_mj;
         h2_emissions = actual_h2_needed * energy_input_h2 el * elec_intensity_mj;
         electrolysis_ghg = co_emissions + h2_emissions;
         conversion_ghg = cv_ghg_emissions cv * nf;
         distribution_ghg = ds_ghg_emissions ds * nf;
         use_phase_ghg = combustion_emissions up * nf;
         total_ghg = carbon_capture_ghg + electrolysis_ghg + conversion_ghg
                       + distribution_ghg + use_phase_ghg;
         carbon_capture_energy = (energy_requirement cc * actual_co2_needed) * nf;
         co_energy = actual_co_needed * energy_input_co el;
         h2_energy = actual_h2_needed * energy_input_h2 el;
         electrolysis_energy = (co_energy + h2_energy) * nf;
         conversion_energy = cv_energy_input cv * nf;
         distribution_energy = ds_energy_input ds * nf;
         total_energy = carbon_capture_energy + electrolysis_energy + conversion_energy
                          + distribution_energy;
         carbon_capture_water = cc_water_usage cc * actual_co2_needed * nf;
         electrolysis_water = el_water_usage el * total_syngas_needed;
         conversion_water = cv_water_usage cv * nf
     in
      \<lparr> ghg_emissions =
             [(''carbon_capture'', carbon_capture_ghg), (''electrolysis'', electrolysis_ghg),
              (''conversion'', conversion_ghg), (''distribution'', distribution_ghg),
              (''use_phase'', use_phase_ghg), (''total'', total_ghg)],
           energy_consumption =
             [(''carbon_capture'', carbon_capture_energy),
              (''electrolysis'', electrolysis_energy), (''conversion'', conversion_energy),
              (''distribution'', distribution_energy), (''total'', total_energy)],
           water_usage =
             [(''carbon_capture'', carbon_capture_water),
              (''electrolysis'', electrolysis_water), (''conversion'', conversion_water),
              (''total'', carbon_capture_water + electrolysis_water + conversion_water)],
           land_use = [(''total'', 0)] \<rparr>)"
  unfolding calculate_stages_def Let_def
  using assms by (simp del: times_divide_eq_right times_divide_eq_left divide_divide_eq_left divide_divide_eq_right)

lemma calculate_stages_cases:
  obtains (no_factor) e where "normalization_factor fu (energy_density up) = Inl e"
      and "calculate_stages fu cc el cv ds up = Inl e"
  | (zero_division) nf where "normalization_factor fu (energy_density up) = Inr nf"
      and "capture_efficiency cc = 0 \<or> 1 + get_default (co_h2_ratio cv) 1 = 0 \<or>
         co2_electrolysis_efficiency el = 0 \<or> water_electrolysis_efficiency el = 0"
      and "calculate_stages fu cc el cv ds up = Inl ZeroDivisionError"
  | (val) nf r where "normalization_factor fu (energy_density up) = Inr nf"
      and "capture_efficiency cc \<noteq> 0" and "1 + get_default (co_h2_ratio cv) 1 \<noteq> 0"
      and "co2_electrolysis_efficiency el \<noteq> 0" and "water_electrolysis_efficiency el \<noteq> 0"
      and "calculate_stages fu cc el cv ds up = Inr r"
proof (cases "normalization_factor fu (energy_density up)")
  case (Inl e)
  then show ?thesis using no_factor calculate_stages_no_factor by blast
next
  case (Inr nf)
  show ?thesis
  proof (cases "capture_efficiency cc = 0 \<or> 1 + get_default (co_h2_ratio cv) 1 = 0 \<or>
         co2_electrolysis_efficiency el = 0 \<or> water_electrolysis_efficiency el = 0")
    case True
    then show ?thesis using Inr zero_division calculate_stages_zero_division by blast
  next
    case False
    then show ?thesis using Inr val calculate_stages_value[OF Inr, of cc cv el ds] by blast
  qed
qed

lemma calculate_stages_Inr:
  assumes "calculate_stages fu cc el cv ds up = Inr r"
  obtains nf where "normalization_factor fu (energy_density up) = Inr nf"
    and "capture_efficiency cc \<noteq> 0" and "1 + get_default (co_h2_ratio cv) 1 \<noteq> 0"
    and "co2_electrolysis_efficiency el \<noteq> 0" and "water_electrolysis_efficiency el \<noteq> 0"
  using assms
  by (cases rule: calculate_stages_cases [where fu = fu and up = up and cc = cc and cv = cv
        and el = el and ds = ds]) simp_all

lemma calculate_lca_Inr:
  assumes "calculate_lca s = Inr s'"
  obtains cc el cv ds up r where "carbon_capture_data s = Some cc"
    and "electrolysis_data s = Some el" and "conversion_data s = Some cv"
    and "distribution_data s = Some ds" and "use_phase_data s = Some up"
    and "calculate_stages (functional_unit s) cc el cv ds up = Inr r"
    and "s' = s\<lparr>results := r\<rparr>"
  using assms
  by (auto simp add: calculate_lca_def bindE_def split: option.splits sum.splits)

lemma calculate_stages_keys:
  assumes "calculate_stages fu cc el cv ds up = Inr r"
  shows "map fst (ghg_emissions r) =
           [''carbon_capture'', ''electrolysis'', ''conversion'', ''distribution'',
            ''use_phase'', ''total''] \<and>
         map fst (energy_consumption r) =
           [''carbon_capture'', ''electrolysis'', ''conversion'', ''distribution'', ''total''] \<and>
         map fst (water_usage r) =
           [''carbon_capture'', ''electrolysis'', ''conversion'', ''total''] \<and>
         land_use r = [(''total'', 0)]"
proof -
  from assms obtain nf where ok: "normalization_factor fu (energy_density up) = Inr nf"
    "capture_efficiency cc \<noteq> 0" "1 + get_default (co_h2_ratio cv) 1 \<noteq> 0"
    "co2_electrolysis_efficiency el \<noteq> 0" "water_electrolysis_efficiency el \<noteq> 0"
    by (rule calculate_stages_Inr)
  from assms show ?thesis
    unfolding calculate_stages_value [OF ok, of ds, unfolded Let_def]
    by auto
qed

lemma example_calculates:
  assumes "fu \<in> {''MJ'', ''kg'', ''L''}"
  shows "\<exists>r. calculate_lca (example_state fu) = Inr (example_state fu\<lparr>results := r\<rparr>)"
proof -
  define nf :: real where "nf = (if fu = ''MJ'' then 1 / 43 else if fu = ''kg'' then 1 else 0.8)"
  from assms have "normalization_factor fu 43 = Inr nf"
    by (auto simp add: normalization_factor_def nf_def)
  then have "\<exists>r. calculate_stages fu
     \<lparr> capture_efficiency = 80.0, energy_requirement = 30.0,
         cc_ghg_emissions = 0.08, cc_water_usage = 5.0, co2_capture_rate = 3.1 \<rparr>
     \<lparr> co2_electrolysis_efficiency = 65.0,
         water_electrolysis_efficiency = 75.0, electricity_source = ''renewable'',
         electricity_carbon_intensity = 0.020, energy_input_co = 28.0,
         energy_input_h2 = 55.0, el_water_usage = 20.0 \<rparr>
     \<lparr> technology = ''Fischer-Tropsch'', efficiency = 0.65,
         cv_ghg_emissions = 0.2, cv_energy_input = 25.0, cv_water_usage = 5.0,
         syngas_requirement = Some 2.13, co_h2_ratio = Some 0.923 \<rparr>
     \<lparr> transport_distance = 500.0, transport_mode = ''truck'',
         ds_ghg_emissions = 0.05, ds_energy_input = 2.0 \<rparr>
     \<lparr> combustion_emissions = 0.0, energy_density = 43.0 \<rparr> = Inr r"
    by (subst calculate_stages_value [where nf = nf]) (simp_all add: get_default_def)
  then show ?thesis
    by (auto simp add: calculate_lca_def example_state_simps)
qed

lemma resolve_intensity_value:
  "resolve_intensity src intensity =
     Inr (case intensity of Some v \<Rightarrow> v
          | None \<Rightarrow> (case map_of electricity_carbon_intensities src of
                       Some v \<Rightarrow> v | None \<Rightarrow> 0.020),
          if intensity = None \<and> map_of electricity_carbon_intensities src = None
          then [unrecognized_warning src] else [])"
proof -
  have "dict_index electricity_carbon_intensities ''renewable'' = Inr 0.020"
    by (simp add: dict_index_def electricity_carbon_intensities_def)
  then show ?thesis
    by (simp add: resolve_intensity_def split: option.splits)
qed

lemma set_electrolysis_data_explicit:
  "set_electrolysis_data co2_eff water_eff src e_co e_h2 water (Some v) s =
     Inr (s\<lparr>electrolysis_data := Some \<lparr> co2_electrolysis_efficiency = co2_eff,
                 water_electrolysis_efficiency = water_eff, electricity_source = src,
                 electricity_carbon_intensity = v, energy_input_co = e_co,
                 energy_input_h2 = e_h2, el_water_usage = water \<rparr>,
              stdout := stdout s @ []\<rparr>)"
  by (simp add: set_electrolysis_data_def resolve_intensity_def)

lemma sweep_without_electrolysis:
  assumes "electrolysis_data s = None"
  shows "fst (sweep sources co h2 s rows) = s"
    and "sources \<noteq> [] \<Longrightarrow> \<exists>e. snd (sweep sources co h2 s rows) = Inl e"
  using assms by (cases sources; simp add: sweep_step_def)+

lemma calculate_lca_electrolysis_data:
  assumes "calculate_lca s = Inr s'"
  shows "electrolysis_data s' = electrolysis_data s"
  using assms by (rule calculate_lca_Inr) simp

subsection \<open>The stages of the calculation\<close>

text \<open>
  Claim C1. For a complete parameter state with nonzero efficiencies \<open>calculate_lca\<close>
  raises only where the functional unit has no normalization factor or \<open>1 + ratio\<close> is
  zero; otherwise it returns, and its electrolysis entries are as follows. With
  \<open>total_syngas_needed = syngas_requirement * nf\<close> (2.5 when unset) and
  \<open>ratio = co_h2_ratio\<close> (1.0 when unset), the CO and H2 masses are the fractions
  \<open>ratio / (1 + ratio)\<close> and \<open>1 / (1 + ratio)\<close> of it, each divided by its efficiency over
  100; the GHG entry is the energy of both times the carbon intensity over 3.6; the
  energy entry is the energy of both times \<open>nf\<close> once more; the water entry is
  \<open>water_usage * total_syngas_needed\<close>, with no division by an efficiency.
\<close>

theorem electrolysis_stage:
  assumes present: "carbon_capture_data s = Some cc" "electrolysis_data s = Some el"
      "conversion_data s = Some cv" "distribution_data s = Some ds"
      "use_phase_data s = Some up"
    and cap: "capture_efficiency cc \<noteq> 0"
    and co: "co2_electrolysis_efficiency el \<noteq> 0"
    and h2: "water_electrolysis_efficiency el \<noteq> 0"
  shows "(normalization_factor (functional_unit s) (energy_density up) = Inl e \<longrightarrow>
            calculate_lca s = Inl e) \<and>
         (normalization_factor (functional_unit s) (energy_density up) = Inr nf \<and>
          1 + get_default (co_h2_ratio cv) 1.0 = 0 \<longrightarrow>
            calculate_lca s = Inl ZeroDivisionError) \<and>
         (normalization_factor (functional_unit s) (energy_density up) = Inr nf \<and>
          1 + get_default (co_h2_ratio cv) 1.0 \<noteq> 0 \<longrightarrow>
            (\<exists>s'. calculate_lca s = Inr s' \<and>
              (let ratio = get_default (co_h2_ratio cv) 1.0;
                   total_syngas_needed = get_default (syngas_requirement cv) 2.5 * nf;
                   actual_co = total_syngas_needed * (ratio / (1 + ratio))
                                 / (co2_electrolysis_efficiency el / 100);
                   actual_h2 = total_syngas_needed * (1 / (1 + ratio))
                                 / (water_electrolysis_efficiency el / 100)
               in map_of (ghg_emissions (results s')) ''electrolysis'' =
                    Some ((actual_co * energy_input_co el + actual_h2 * energy_input_h2 el)
                            * (electricity_carbon_intensity el / 3.6)) \<and>
                  map_of (energy_consumption (results s')) ''electrolysis'' =
                    Some ((actual_co * energy_input_co el + actual_h2 * energy_input_h2 el)
                            * nf) \<and>
                  map_of (water_usage (results s')) ''electrolysis'' =
                    Some (el_water_usage el * total_syngas_needed))))"
proof (intro conjI impI; (elim conjE)?)
  assume "normalization_factor (functional_unit s) (energy_density up) = Inl e"
  then show "calculate_lca s = Inl e"
    by (simp add: calculate_lca_complete [OF present] calculate_stages_no_factor)
next
  assume "normalization_factor (functional_unit s) (energy_density up) = Inr nf"
    and "1 + get_default (co_h2_ratio cv) 1.0 = 0"
  then show "calculate_lca s = Inl ZeroDivisionError"
    by (simp add: calculate_lca_complete [OF present] calculate_stages_zero_division)
next
  assume nf: "normalization_factor (functional_unit s) (energy_density up) = Inr nf"
    and "1 + get_default (co_h2_ratio cv) 1.0 \<noteq> 0"
  then have ratio: "1 + get_default (co_h2_ratio cv) 1 \<noteq> 0"
    by simp
  note stages = calculate_stages_value [OF nf cap ratio co h2, of ds, unfolded Let_def]
  show "\<exists>s'. calculate_lca s = Inr s' \<and>
              (let ratio = get_default (co_h2_ratio cv) 1.0;
                   total_syngas_needed = get_default (syngas_requirement cv) 2.5 * nf;
                   actual_co = total_syngas_needed * (ratio / (1 + ratio))
                                 / (co2_electrolysis_efficiency el / 100);
                   actual_h2 = total_syngas_needed * (1 / (1 + ratio))
                                 / (water_electrolysis_efficiency el / 100)
               in map_of (ghg_emissions (results s')) ''electrolysis'' =
                    Some ((actual_co * energy_input_co el + actual_h2 * energy_input_h2 el)
                            * (electricity_carbon_intensity el / 3.6)) \<and>
                  map_of (energy_consumption (results s')) ''electrolysis'' =
                    Some ((actual_co * energy_input_co el + actual_h2 * energy_input_h2 el)
                            * nf) \<and>
                  map_of (water_usage (results s')) ''electrolysis'' =
                    Some (el_water_usage el * total_syngas_needed))"
    unfolding Let_def calculate_lca_complete [OF present] stages
    apply simp
    apply (simp add: ring_distribs ac_simps)
    done
qed

text \<open>
  The example parameters per kg of fuel: 42.6 L of water, about 125.3 MJ and about
  0.696 kg CO2e for the electrolysis.
\<close>

theorem electrolysis_stage_witness:
  "\<exists>s'. calculate_lca (example_state ''kg'') = Inr s' \<and>
     map_of (ghg_emissions (results s')) ''electrolysis'' = Some (301111 / 432675) \<and>
     map_of (energy_consumption (results s')) ''electrolysis'' = Some (1204444 / 9615) \<and>
     map_of (water_usage (results s')) ''electrolysis'' = Some 42.6"
  using electrolysis_stage [of "example_state ''kg''"
      "the (carbon_capture_data (example_state ''kg''))"
      "the (electrolysis_data (example_state ''kg''))"
      "the (conversion_data (example_state ''kg''))"
      "the (distribution_data (example_state ''kg''))"
      "the (use_phase_data (example_state ''kg''))" undefined 1, unfolded Let_def]
  by (simp add: example_state_simps normalization_factor_def get_default_def)

text \<open>
  Claim C2. For a complete parameter state with a nonzero capture efficiency, on which
  no other step raises, the carbon-capture entries are the GHG, energy and water figures
  times \<open>co2_capture_rate / (capture_efficiency / 100)\<close> times \<open>nf\<close>; with efficiency
  80, rate 3.1 and GHG figure 0.08 the actual CO2 is 3.875 and the GHG before
  normalization is 0.31.
\<close>

theorem carbon_capture_stage:
  assumes present: "carbon_capture_data s = Some cc" "electrolysis_data s = Some el"
      "conversion_data s = Some cv" "distribution_data s = Some ds"
      "use_phase_data s = Some up"
    and cap: "capture_efficiency cc \<noteq> 0"
  shows "(normalization_factor (functional_unit s) (energy_density up) = Inl e \<longrightarrow>
            calculate_lca s = Inl e) \<and>
         (normalization_factor (functional_unit s) (energy_density up) = Inr nf \<and>
          (1 + get_default (co_h2_ratio cv) 1.0 = 0 \<or> co2_electrolysis_efficiency el = 0 \<or>
           water_electrolysis_efficiency el = 0) \<longrightarrow>
            calculate_lca s = Inl ZeroDivisionError) \<and>
         (normalization_factor (functional_unit s) (energy_density up) = Inr nf \<and>
          1 + get_default (co_h2_ratio cv) 1.0 \<noteq> 0 \<and> co2_electrolysis_efficiency el \<noteq> 0 \<and>
          water_electrolysis_efficiency el \<noteq> 0 \<longrightarrow>
            (\<exists>s'. calculate_lca s = Inr s' \<and>
              (let actual_co2 = co2_capture_rate cc / (capture_efficiency cc / 100)
               in map_of (ghg_emissions (results s')) ''carbon_capture'' =
                    Some (cc_ghg_emissions cc * actual_co2 * nf) \<and>
                  map_of (energy_consumption (results s')) ''carbon_capture'' =
                    Some (energy_requirement cc * actual_co2 * nf) \<and>
                  map_of (water_usage (results s')) ''carbon_capture'' =
                    Some (cc_water_usage cc * actual_co2 * nf)))) \<and>
         (capture_efficiency cc = 80 \<and> co2_capture_rate cc = 3.1 \<and> cc_ghg_emissions cc = 0.08
            \<longrightarrow> co2_capture_rate cc / (capture_efficiency cc / 100) = 3.875 \<and>
                cc_ghg_emissions cc * (co2_capture_rate cc / (capture_efficiency cc / 100))
                  = 0.31)"
proof (intro conjI impI; (elim conjE)?)
  assume "normalization_factor (functional_unit s) (energy_density up) = Inl e"
  then show "calculate_lca s = Inl e"
    by (simp add: calculate_lca_complete [OF present] calculate_stages_no_factor)
next
  assume "normalization_factor (functional_unit s) (energy_density up) = Inr nf"
    and "1 + get_default (co_h2_ratio cv) 1.0 = 0 \<or> co2_electrolysis_efficiency el = 0 \<or>
           water_electrolysis_efficiency el = 0"
  then show "calculate_lca s = Inl ZeroDivisionError"
    by (simp add: calculate_lca_complete [OF present] calculate_stages_zero_division)
next
  assume nf: "normalization_factor (functional_unit s) (energy_density up) = Inr nf"
    and "1 + get_default (co_h2_ratio cv) 1.0 \<noteq> 0"
    and co: "co2_electrolysis_efficiency el \<noteq> 0"
    and h2: "water_electrolysis_efficiency el \<noteq> 0"
  then have ratio: "1 + get_default (co_h2_ratio cv) 1 \<noteq> 0"
    by simp
  note stages = calculate_stages_value [OF nf cap ratio co h2, of ds, unfolded Let_def]
  show "\<exists>s'. calculate_lca s = Inr s' \<and>
              (let actual_co2 = co2_capture_rate cc / (capture_efficiency cc / 100)
               in map_of (ghg_emissions (results s')) ''carbon_capture'' =
                    Some (cc_ghg_emissions cc * actual_co2 * nf) \<and>
                  map_of (energy_consumption (results s')) ''carbon_capture'' =
                    Some (energy_requirement cc * actual_co2 * nf) \<and>
                  map_of (water_usage (results s')) ''carbon_capture'' =
                    Some (cc_water_usage cc * actual_co2 * nf))"
    unfolding Let_def calculate_lca_complete [OF present] stages
    by simp
next
  assume "capture_efficiency cc = 80" and "co2_capture_rate cc = 3.1"
    and "cc_ghg_emissions cc = 0.08"
  then show "co2_capture_rate cc / (capture_efficiency cc / 100) = 3.875"
    and "cc_ghg_emissions cc * (co2_capture_rate cc / (capture_efficiency cc / 100)) = 0.31"
    by (simp_all only:) simp_all
qed

text \<open>
  The example parameters per kg of fuel (factor 1): 0.31 kg CO2e, 116.25 MJ and
  19.375 L for the capture.
\<close>

theorem carbon_capture_stage_witness:
  "\<exists>s'. calculate_lca (example_state ''kg'') = Inr s' \<and>
     map_of (ghg_emissions (results s')) ''carbon_capture'' = Some 0.31 \<and>
     map_of (energy_consumption (results s')) ''carbon_capture'' = Some 116.25 \<and>
     map_of (water_usage (results s')) ''carbon_capture'' = Some 19.375"
  using carbon_capture_stage [of "example_state ''kg''"
      "the (carbon_capture_data (example_state ''kg''))"
      "the (electrolysis_data (example_state ''kg''))"
      "the (conversion_data (example_state ''kg''))"
      "the (distribution_data (example_state ''kg''))"
      "the (use_phase_data (example_state ''kg''))" undefined 1, unfolded Let_def]
  by (simp add: example_state_simps normalization_factor_def get_default_def)

subsection \<open>Functional unit and missing data\<close>

text \<open>
  Claim C3. For a complete parameter state the normalization factor is
  \<open>1 / energy_density\<close> for the unit MJ (a zero energy density raises
  \<open>ZeroDivisionError\<close>), 1 for kg and 0.8 for L; for any other unit \<open>calculate_lca\<close>
  raises the \<open>ValueError\<close> whose message ends with the unit, and it raises a
  \<open>ValueError\<close> for no other complete state. The factor is the one the results carry:
  the conversion, distribution and use-phase GHG entries are the figures times it.
\<close>

theorem normalization_by_functional_unit:
  assumes "carbon_capture_data s = Some cc" and "electrolysis_data s = Some el"
    and "conversion_data s = Some cv" and "distribution_data s = Some ds"
    and "use_phase_data s = Some up"
  shows "(functional_unit s = ''MJ'' \<longrightarrow>
            normalization_factor (functional_unit s) (energy_density up) =
              (if energy_density up = 0 then Inl ZeroDivisionError
               else Inr (1 / energy_density up))) \<and>
         (functional_unit s = ''kg'' \<longrightarrow>
            normalization_factor (functional_unit s) (energy_density up) = Inr 1) \<and>
         (functional_unit s = ''L'' \<longrightarrow>
            normalization_factor (functional_unit s) (energy_density up) = Inr 0.8) \<and>
         (functional_unit s \<notin> {''MJ'', ''kg'', ''L''} \<longrightarrow>
            calculate_lca s =
              Inl (ValueError (''Unsupported functional unit: '' @ functional_unit s))) \<and>
         ((\<exists>m. calculate_lca s = Inl (ValueError m)) =
            (functional_unit s \<notin> {''MJ'', ''kg'', ''L''})) \<and>
         (\<forall>s'. calculate_lca s = Inr s' \<longrightarrow>
            (\<exists>nf. normalization_factor (functional_unit s) (energy_density up) = Inr nf \<and>
               map_of (ghg_emissions (results s')) ''conversion'' =
                 Some (cv_ghg_emissions cv * nf) \<and>
               map_of (ghg_emissions (results s')) ''distribution'' =
                 Some (ds_ghg_emissions ds * nf) \<and>
               map_of (ghg_emissions (results s')) ''use_phase'' =
                 Some (combustion_emissions up * nf)))"
proof -
  note complete = calculate_lca_complete [OF assms]
  have factor: "normalization_factor (functional_unit s) (energy_density up) =
      (if functional_unit s = ''MJ''
       then if energy_density up = 0 then Inl ZeroDivisionError
            else Inr (1 / energy_density up)
       else if functional_unit s = ''kg'' then Inr 1
       else if functional_unit s = ''L'' then Inr 0.8
       else Inl (ValueError (''Unsupported functional unit: '' @ functional_unit s)))"
    by (simp add: normalization_factor_def py_div_def)
  have unsupported: "calculate_lca s =
        Inl (ValueError (''Unsupported functional unit: '' @ functional_unit s))"
    if "functional_unit s \<notin> {''MJ'', ''kg'', ''L''}"
    using that by (simp add: complete calculate_stages_no_factor factor)
  have supported: "calculate_lca s \<noteq> Inl (ValueError m)"
    if "functional_unit s \<in> {''MJ'', ''kg'', ''L''}" for m
  proof (cases rule: calculate_stages_cases [where fu = "functional_unit s" and up = up
        and cc = cc and cv = cv and el = el and ds = ds])
    case (no_factor e)
    with that factor have "e = ZeroDivisionError"
      by (auto split: if_splits)
    with no_factor show ?thesis
      by (simp add: complete)
  next
    case (zero_division nf)
    then show ?thesis
      by (simp add: complete)
  next
    case (val nf r)
    then show ?thesis
      by (simp add: complete)
  qed
  have used: "\<exists>nf. normalization_factor (functional_unit s) (energy_density up) = Inr nf \<and>
               map_of (ghg_emissions (results s')) ''conversion'' =
                 Some (cv_ghg_emissions cv * nf) \<and>
               map_of (ghg_emissions (results s')) ''distribution'' =
                 Some (ds_ghg_emissions ds * nf) \<and>
               map_of (ghg_emissions (results s')) ''use_phase'' =
                 Some (combustion_emissions up * nf)"
    if run: "calculate_lca s = Inr s'" for s'
  proof (cases rule: calculate_stages_cases [where fu = "functional_unit s" and up = up
        and cc = cc and cv = cv and el = el and ds = ds])
    case (no_factor e)
    with run show ?thesis
      by (simp add: complete)
  next
    case (zero_division nf)
    with run show ?thesis
      by (simp add: complete)
  next
    case (val nf r)
    from run show ?thesis
      unfolding complete calculate_stages_value [OF val(1-5), of ds, unfolded Let_def]
      using val(1) by auto
  qed
  from factor unsupported supported used show ?thesis
    by (intro conjI impI allI iffI; (elim exE)?; auto)
qed

text \<open>
  The example parameters under the units MJ, kg, L and the unsupported gal.
\<close>

theorem normalization_by_functional_unit_witness:
  "normalization_factor ''MJ'' 43 = Inr (1 / 43) \<and>
   normalization_factor ''kg'' 43 = Inr 1 \<and>
   normalization_factor ''L'' 43 = Inr 0.8 \<and>
   calculate_lca (example_state ''gal'') = Inl (ValueError ''Unsupported functional unit: gal'') \<and>
   (\<forall>m. calculate_lca (example_state ''L'') \<noteq> Inl (ValueError m))"
  using normalization_by_functional_unit [of "example_state ''MJ''"
      "the (carbon_capture_data (example_state ''MJ''))"
      "the (electrolysis_data (example_state ''MJ''))"
      "the (conversion_data (example_state ''MJ''))"
      "the (distribution_data (example_state ''MJ''))"
      "the (use_phase_data (example_state ''MJ''))"]
    normalization_by_functional_unit [of "example_state ''kg''"
      "the (carbon_capture_data (example_state ''kg''))"
      "the (electrolysis_data (example_state ''kg''))"
      "the (conversion_data (example_state ''kg''))"
      "the (distribution_data (example_state ''kg''))"
      "the (use_phase_data (example_state ''kg''))"]
    normalization_by_functional_unit [of "example_state ''L''"
      "the (carbon_capture_data (example_state ''L''))"
      "the (electrolysis_data (example_state ''L''))"
      "the (conversion_data (example_state ''L''))"
      "the (distribution_data (example_state ''L''))"
      "the (use_phase_data (example_state ''L''))"]
    normalization_by_functional_unit [of "example_state ''gal''"
      "the (carbon_capture_data (example_state ''gal''))"
      "the (electrolysis_data (example_state ''gal''))"
      "the (conversion_data (example_state ''gal''))"
      "the (distribution_data (example_state ''gal''))"
      "the (use_phase_data (example_state ''gal''))"]
  by (simp add: example_state_simps)

text \<open>
  Claim C4. \<open>calculate_lca\<close> raises the missing-data \<open>ValueError\<close>, whose fixed
  message names the DAC, electrolysis, FT pathway, exactly when one of the carbon-capture,
  electrolysis, conversion, distribution or use-phase dictionaries is empty. The
  feedstock dictionary has no part in it. The outcome is the exception alone: no new
  object and so no results.
\<close>

theorem missing_data_error:
  "(calculate_lca s = Inl (ValueError missing_data_message)) =
     (carbon_capture_data s = None \<or> electrolysis_data s = None \<or> conversion_data s = None
        \<or> distribution_data s = None \<or> use_phase_data s = None) \<and>
   (calculate_lca (s\<lparr>feedstock_data := None\<rparr>) = Inl (ValueError missing_data_message)) =
     (calculate_lca s = Inl (ValueError missing_data_message))"
proof -
  have factor: "normalization_factor fu d \<noteq> Inl (ValueError missing_data_message)" for fu d
    by (simp add: normalization_factor_def py_div_def missing_data_message_def)
  have stages: "calculate_stages fu cc el cv ds up \<noteq> Inl (ValueError missing_data_message)"
    for fu cc el cv ds up
    using factor [of fu "energy_density up"]
    by (cases rule: calculate_stages_cases [where fu = fu and up = up
        and cc = cc and cv = cv and el = el and ds = ds]) simp_all
  have iff: "(calculate_lca t = Inl (ValueError missing_data_message)) =
     (carbon_capture_data t = None \<or> electrolysis_data t = None \<or> conversion_data t = None
        \<or> distribution_data t = None \<or> use_phase_data t = None)" for t
  proof (cases "carbon_capture_data t = None \<or> electrolysis_data t = None \<or>
      conversion_data t = None \<or> distribution_data t = None \<or> use_phase_data t = None")
    case True
    then show ?thesis
      using calculate_lca_incomplete [of t] by simp
  next
    case False
    then obtain cc el cv ds up where present: "carbon_capture_data t = Some cc"
      "electrolysis_data t = Some el" "conversion_data t = Some cv"
      "distribution_data t = Some ds" "use_phase_data t = Some up"
      by auto
    have "calculate_lca t \<noteq> Inl (ValueError missing_data_message)"
      using stages [of "functional_unit t" cc el cv ds up]
      by (cases "calculate_stages (functional_unit t) cc el cv ds up")
         (simp_all add: calculate_lca_complete [OF present])
    with False show ?thesis
      by simp
  qed
  show ?thesis
    by (simp add: iff)
qed

text \<open>
  A fresh object raises it; the example object, whose feedstock dictionary is empty,
  does not.
\<close>

theorem missing_data_error_witness:
  "calculate_lca (SAF_LCA_Model ''FT'' ''MJ'' (Some ''DAC'')) =
     Inl (ValueError missing_data_message) \<and>
   calculate_lca (example_state ''MJ'') \<noteq> Inl (ValueError missing_data_message) \<and>
   feedstock_data (example_state ''MJ'') = None"
  using missing_data_error [of "SAF_LCA_Model ''FT'' ''MJ'' (Some ''DAC'')"]
    missing_data_error [of "example_state ''MJ''"]
  by (simp add: example_state_simps SAF_LCA_Model_def example_state_def)

subsection \<open>Carbon intensity of the electricity\<close>

text \<open>
  Claim C5. \<open>set_electrolysis_data\<close> never raises. It stores the source tag as given;
  the stored intensity is the explicit value when there is one, whatever the tag, else
  the table's value for the tag, else 0.020, the value of \<open>renewable\<close>; and it prints
  one warning in exactly the last case.
\<close>

theorem electrolysis_intensity_resolution:
  "\<exists>s'. set_electrolysis_data co2_eff water_eff src e_co e_h2 water intensity s = Inr s' \<and>
     map_option electricity_source (electrolysis_data s') = Some src \<and>
     map_option electricity_carbon_intensity (electrolysis_data s') =
       Some (case intensity of Some v \<Rightarrow> v
             | None \<Rightarrow> (case map_of electricity_carbon_intensities src of
                          Some v \<Rightarrow> v | None \<Rightarrow> 0.020)) \<and>
     stdout s' = stdout s @
       (if intensity = None \<and> map_of electricity_carbon_intensities src = None
        then [unrecognized_warning src] else [])"
  by (simp add: set_electrolysis_data_def resolve_intensity_value)

text \<open>
  The tag \<open>fusion\<close> is not in the table: 0.020 is stored and the warning printed.
\<close>

theorem electrolysis_intensity_resolution_witness:
  "\<exists>s'. set_electrolysis_data 65 75 ''fusion'' 28 55 20 None (example_state ''MJ'') = Inr s' \<and>
     map_option electricity_source (electrolysis_data s') = Some ''fusion'' \<and>
     map_option electricity_carbon_intensity (electrolysis_data s') = Some 0.020 \<and>
     stdout s' = [''Warning: Electricity source '' @ [CHR 0x27] @ ''fusion'' @ [CHR 0x27]
                    @ '' not recognized. Using default value.'']"
  using electrolysis_intensity_resolution [of 65 75 "''fusion''" 28 55 20 None "example_state ''MJ''"]
  by (simp add: electricity_carbon_intensities_def unrecognized_warning_def example_state_simps)

text \<open>
  Claim C6, as amended. There is no handler around the sweep, so the originals are
  written back only when the loop has not raised. When
  \<open>analyze_electricity_sources\<close> returns normally the stored source and intensity are
  those from before the call; so they are when the list of scenarios is empty or no
  electrolysis data is stored, where the call raises without having changed them. When
  the calculation of the first scenario raises, the call raises the same exception and
  leaves the object as \<open>set_electrolysis_data\<close> made it for that scenario.
\<close>

theorem sources_restored_unless_sweep_raises:
  "(analyze_electricity_sources electricity_sources s = (s', r) \<and>
    ((\<exists>df. r = Inr df) \<or> get_default electricity_sources default_electricity_sources = []
       \<or> electrolysis_data s = None) \<longrightarrow>
      map_option electricity_source (electrolysis_data s') =
        map_option electricity_source (electrolysis_data s) \<and>
      map_option electricity_carbon_intensity (electrolysis_data s') =
        map_option electricity_carbon_intensity (electrolysis_data s)) \<and>
   (electrolysis_data s = Some el \<and>
    get_default electricity_sources default_electricity_sources = source # rest \<and>
    set_electrolysis_data (co2_electrolysis_efficiency el) (water_electrolysis_efficiency el)
      source (energy_input_co el) (energy_input_h2 el) (el_water_usage el) None s = Inr s1 \<and>
    calculate_lca s1 = Inl e \<longrightarrow>
      analyze_electricity_sources electricity_sources s = (s1, Inl e))"
proof -
  have kept: "analyze_electricity_sources electricity_sources s = (s1, Inl e)"
    if "electrolysis_data s = Some el"
      and "get_default electricity_sources default_electricity_sources = source # rest"
      and "set_electrolysis_data (co2_electrolysis_efficiency el)
        (water_electrolysis_efficiency el) source (energy_input_co el) (energy_input_h2 el)
        (el_water_usage el) None s = Inr s1"
      and "calculate_lca s1 = Inl e"
    using that unfolding analyze_electricity_sources_def Let_def
    by (simp add: sweep_step_def get_default_def)
  have restored: "map_option electricity_source (electrolysis_data s') =
           map_option electricity_source (electrolysis_data s) \<and>
         map_option electricity_carbon_intensity (electrolysis_data s') =
           map_option electricity_carbon_intensity (electrolysis_data s)"
    if run: "analyze_electricity_sources electricity_sources s = (s', r)"
      and ok: "(\<exists>df. r = Inr df)
           \<or> get_default electricity_sources default_electricity_sources = []
           \<or> electrolysis_data s = None"
  proof (cases "electrolysis_data s")
    case None
    define sources where "sources = get_default electricity_sources default_electricity_sources"
    have "fst (sweep sources 28.0 55.0 s []) = s"
      using None by (rule sweep_without_electrolysis)
    moreover have "snd (sweep sources 28.0 55.0 s []) = Inr rows \<Longrightarrow> sources = []" for rows
      using sweep_without_electrolysis(2) [OF None, of sources "28.0" "55.0" "[]"] by auto
    ultimately have "s' = s"
      using run None unfolding analyze_electricity_sources_def Let_def sources_def [symmetric]
      by (cases "sweep sources 28.0 55.0 s []")
         (auto simp add: get_default_def split: sum.splits)
    then show ?thesis
      by simp
  next
    case (Some el)
    define sources where "sources = get_default electricity_sources default_electricity_sources"
    obtain s1 r1 where sw: "sweep sources (energy_input_co el) (energy_input_h2 el) s [] = (s1, r1)"
      by (cases "sweep sources (energy_input_co el) (energy_input_h2 el) s []")
    have empty: "s1 = s \<and> r1 = Inr []" if "sources = []"
      using sw that by simp
    have not_raised: "\<exists>rows. r1 = Inr rows"
    proof (cases r1)
      case (Inl e)
      with run sw Some have "r = Inl e"
        unfolding analyze_electricity_sources_def Let_def sources_def [symmetric]
        by (simp add: get_default_def)
      with ok Some empty Inl show ?thesis
        by (auto simp add: sources_def)
    next
      case (Inr rows)
      then show ?thesis
        by simp
    qed
    then obtain rows where rows: "r1 = Inr rows" ..
    show ?thesis
    proof (cases "electrolysis_data s1")
      case None
      with run sw Some rows have "r = Inl (KeyError ''co2_electrolysis_efficiency'')" and "s' = s1"
        unfolding analyze_electricity_sources_def Let_def sources_def [symmetric]
        by (simp_all add: get_default_def)
      with ok Some empty None show ?thesis
        by (auto simp add: sources_def)
    next
      case el1: (Some el1)
      define s2 where "s2 = s1\<lparr>electrolysis_data := Some \<lparr>
          co2_electrolysis_efficiency = co2_electrolysis_efficiency el1,
          water_electrolysis_efficiency = water_electrolysis_efficiency el1,
          electricity_source = electricity_source el,
          electricity_carbon_intensity = electricity_carbon_intensity el,
          energy_input_co = energy_input_co el,
          energy_input_h2 = energy_input_h2 el, el_water_usage = el_water_usage el1 \<rparr>\<rparr>"
      have final: "(case calculate_lca s2 of Inl e \<Rightarrow> (s2, Inl e)
          | Inr s3 \<Rightarrow> (s3, data_frame rows)) = (s', r)"
        using run sw Some rows el1
        unfolding analyze_electricity_sources_def Let_def sources_def [symmetric] s2_def
        by (simp add: get_default_def set_electrolysis_data_explicit)
      have "electrolysis_data s' = electrolysis_data s2"
      proof (cases "calculate_lca s2")
        case (Inl e)
        with final show ?thesis by simp
      next
        case (Inr s3)
        with final calculate_lca_electrolysis_data [OF Inr] show ?thesis by simp
      qed
      with Some show ?thesis
        by (simp add: s2_def)
    qed
  qed
  from kept restored show ?thesis
    by blast
qed

text \<open>
  A sweep over coal and wind on the example parameters returns, and leaves the
  source \<open>renewable\<close> with intensity 0.020.
\<close>

theorem sources_restored_unless_sweep_raises_witness:
  "(\<exists>df. snd (analyze_electricity_sources (Some [''coal'', ''wind'']) (example_state ''MJ''))
       = Inr df) \<and>
   map_option electricity_source (electrolysis_data (fst (analyze_electricity_sources
      (Some [''coal'', ''wind'']) (example_state ''MJ'')))) = Some ''renewable'' \<and>
   map_option electricity_carbon_intensity (electrolysis_data (fst
      (analyze_electricity_sources (Some [''coal'', ''wind'']) (example_state ''MJ''))))
     = Some 0.020"
proof -
  have ret: "\<exists>df. snd (analyze_electricity_sources (Some [''coal'', ''wind''])
      (example_state ''MJ'')) = Inr df"
    by (simp add: analyze_electricity_sources_def sweep_step_def set_electrolysis_data_def
      resolve_intensity_def calculate_lca_def calculate_stages_def normalization_factor_def
      scenario_row_def saf_emissions_mj_def electrolysis_emissions_mj_def dict_index_def
      data_frame_def get_default_def electricity_carbon_intensities_def
      example_state_def Let_def)
  then obtain df where df: "snd (analyze_electricity_sources (Some [''coal'', ''wind''])
      (example_state ''MJ'')) = Inr df" ..
  from sources_restored_unless_sweep_raises [where electricity_sources = "Some [''coal'', ''wind'']"
      and s = "example_state ''MJ''" and r = "Inr df"
      and s' = "fst (analyze_electricity_sources (Some [''coal'', ''wind''])
                  (example_state ''MJ''))"] df
  have "map_option electricity_source (electrolysis_data (fst (analyze_electricity_sources
      (Some [''coal'', ''wind'']) (example_state ''MJ'')))) =
        map_option electricity_source (electrolysis_data (example_state ''MJ'')) \<and>
      map_option electricity_carbon_intensity (electrolysis_data (fst
      (analyze_electricity_sources (Some [''coal'', ''wind'']) (example_state ''MJ'')))) =
        map_option electricity_carbon_intensity (electrolysis_data (example_state ''MJ''))"
    by (metis prod.collapse)
  with ret show ?thesis
    by (simp add: example_state_simps)
qed

text \<open>
  Against the claim as written (restoration also when a scenario's calculation
  raises): with the distribution data missing, the first scenario's calculation raises
  the missing-data error, and the object keeps the source \<open>coal\<close> and its intensity
  0.820 in place of \<open>renewable\<close> and 0.020.
\<close>

theorem sweep_failure_keeps_scenario:
  "map_option electricity_source (electrolysis_data
      (example_state ''MJ''\<lparr>distribution_data := None\<rparr>)) = Some ''renewable'' \<and>
   map_option electricity_carbon_intensity (electrolysis_data
      (example_state ''MJ''\<lparr>distribution_data := None\<rparr>)) = Some 0.020 \<and>
   snd (analyze_electricity_sources (Some [''coal''])
      (example_state ''MJ''\<lparr>distribution_data := None\<rparr>))
     = Inl (ValueError missing_data_message) \<and>
   map_option electricity_source (electrolysis_data (fst (analyze_electricity_sources
      (Some [''coal'']) (example_state ''MJ''\<lparr>distribution_data := None\<rparr>)))) = Some ''coal'' \<and>
   map_option electricity_carbon_intensity (electrolysis_data (fst (analyze_electricity_sources
      (Some [''coal'']) (example_state ''MJ''\<lparr>distribution_data := None\<rparr>)))) = Some 0.820"
  by (simp add: analyze_electricity_sources_def sweep_step_def set_electrolysis_data_def
      resolve_intensity_def calculate_lca_def get_default_def electricity_carbon_intensities_def
      example_state_def Let_def)

subsection \<open>Rescaling, failures and the shape of the results\<close>

text \<open>
  Claim C7 fails on the code. The example parameters under kg (factor 1) and under L
  (factor 0.8): the electrolysis GHG entry under L is 0.8 times the one under kg, as
  claimed, but the electrolysis energy entry is 0.64 times the one under kg, the factor
  being applied twice, and the total energy is not 0.8 times the total under kg.
\<close>

theorem electrolysis_energy_not_rescaled:
  "\<not> isl (calculate_lca (example_state ''kg'')) \<and> \<not> isl (calculate_lca (example_state ''L'')) \<and>
   map_of (energy_consumption (results (projr (calculate_lca (example_state ''kg'')))))
     ''electrolysis'' = Some (1204444 / 9615) \<and>
   map_of (energy_consumption (results (projr (calculate_lca (example_state ''L'')))))
     ''electrolysis'' = Some (0.64 * (1204444 / 9615)) \<and>
   map_of (energy_consumption (results (projr (calculate_lca (example_state ''kg'')))))
     ''total'' = Some (10327171 / 38460) \<and>
   map_of (energy_consumption (results (projr (calculate_lca (example_state ''L'')))))
     ''total'' = Some (46818079 / 240375) \<and>
   0.8 * (10327171 / 38460) \<noteq> (46818079 / 240375 :: real) \<and>
   map_of (ghg_emissions (results (projr (calculate_lca (example_state ''kg'')))))
     ''electrolysis'' = Some (301111 / 432675) \<and>
   map_of (ghg_emissions (results (projr (calculate_lca (example_state ''L'')))))
     ''electrolysis'' = Some (0.8 * (301111 / 432675))"
  by (simp add: calculate_lca_def calculate_stages_def normalization_factor_def
      get_default_def example_state_def Let_def)




text \<open>
  Claim C9, as amended. The results that \<open>calculate_lca\<close> returns have these keys, in
  this order: GHG has the five stages and the total; energy has no use phase; water has
  carbon capture, electrolysis, conversion and the total; land use has the total only,
  which is 0.
\<close>

theorem result_keys:
  assumes "calculate_lca s = Inr s'"
  shows "map fst (ghg_emissions (results s')) =
           [''carbon_capture'', ''electrolysis'', ''conversion'', ''distribution'',
            ''use_phase'', ''total''] \<and>
         map fst (energy_consumption (results s')) =
           [''carbon_capture'', ''electrolysis'', ''conversion'', ''distribution'', ''total''] \<and>
         map fst (water_usage (results s')) =
           [''carbon_capture'', ''electrolysis'', ''conversion'', ''total''] \<and>
         land_use (results s') = [(''total'', 0)]"
proof -
  from assms obtain cc el cv ds up r
    where "calculate_stages (functional_unit s) cc el cv ds up = Inr r"
      and "s' = s\<lparr>results := r\<rparr>"
    by (rule calculate_lca_Inr)
  then show ?thesis
    using calculate_stages_keys [of "functional_unit s" cc el cv ds up r] by simp
qed

text \<open>
  The example parameters under MJ.
\<close>

theorem result_keys_witness:
  "\<exists>s'. calculate_lca (example_state ''MJ'') = Inr s' \<and>
     map fst (energy_consumption (results s')) =
       [''carbon_capture'', ''electrolysis'', ''conversion'', ''distribution'', ''total''] \<and>
     land_use (results s') = [(''total'', 0)]"
proof -
  obtain r where run: "calculate_lca (example_state ''MJ'')
      = Inr (example_state ''MJ''\<lparr>results := r\<rparr>)"
    using example_calculates [of "''MJ''"] by auto
  from result_keys [OF run] run show ?thesis
    by simp
qed

text \<open>
  Against the claim as written (every mapping has every stage): for the example
  parameters the GHG mapping has the key \<open>use_phase\<close>, the energy mapping does not, the
  water mapping has no \<open>distribution\<close> and the land-use mapping no \<open>carbon_capture\<close>.
\<close>

theorem results_not_parallel:
  "\<not> isl (calculate_lca (example_state ''MJ'')) \<and>
   map_of (ghg_emissions (results (projr (calculate_lca (example_state ''MJ''))))) ''use_phase''
     = Some 0 \<and>
   map_of (energy_consumption (results (projr (calculate_lca (example_state ''MJ'')))))
     ''use_phase'' = None \<and>
   map_of (water_usage (results (projr (calculate_lca (example_state ''MJ''))))) ''distribution''
     = None \<and>
   map_of (land_use (results (projr (calculate_lca (example_state ''MJ''))))) ''carbon_capture''
     = None"
proof -
  have nf: "normalization_factor ''MJ'' 43 = Inr (1 / 43)"
    by (simp add: normalization_factor_def)
  show ?thesis
    unfolding calculate_lca_complete [OF example_state_simps(2-6)] example_state_simps(1)
    by (subst calculate_stages_value [where nf = "1 / 43", unfolded Let_def];
        simp add: nf get_default_def)+
qed

subsection \<open>Emission reduction\<close>

text \<open>
  Claim C10. When the GHG results are empty \<open>calculate_emission_reduction\<close> first runs
  \<open>calculate_lca\<close>, whose exception it passes on. Let \<open>s1\<close> be the object after that
  run, or the object itself when the results were not empty, and \<open>t\<close> its GHG total. The
  value is \<open>(baseline - saf) / baseline * 100\<close>, where the baseline is 89.0 unless given
  and \<open>saf\<close> is \<open>t * 1000\<close> for the unit MJ and \<open>t * 1000 / energy_density\<close> otherwise; a
  division by zero raises. With the default baseline and \<open>saf = 20\<close> the value is
  6900 / 89, which is 77.53 to two decimals.
\<close>

theorem emission_reduction_value:
  fixes fossil :: "real option" and s s1 :: saf_lca_model and up :: use_phase and t :: real
  defines "baseline \<equiv> get_default fossil 89.0"
    and "saf_emissions \<equiv>
          (if functional_unit s1 = ''MJ'' then t * 1000 else t * 1000 / energy_density up)"
  shows "(ghg_emissions (results s) = [] \<and> calculate_lca s = Inl e \<longrightarrow>
            calculate_emission_reduction fossil s = (s, Inl e)) \<and>
         ((if ghg_emissions (results s) = [] then calculate_lca s else Inr s) = Inr s1 \<and>
          map_of (ghg_emissions (results s1)) ''total'' = Some t \<and>
          use_phase_data s1 = Some up \<longrightarrow>
            calculate_emission_reduction fossil s =
              (s1, if (functional_unit s1 \<noteq> ''MJ'' \<and> energy_density up = 0) \<or> baseline = 0
                   then Inl ZeroDivisionError
                   else Inr ((baseline - saf_emissions) / baseline * 100)) \<and>
            (fossil = None \<and> saf_emissions = 20 \<and>
             (functional_unit s1 = ''MJ'' \<or> energy_density up \<noteq> 0) \<longrightarrow>
               calculate_emission_reduction fossil s = (s1, Inr (6900 / 89)) \<and>
               abs (6900 / 89 - 77.53) < (0.005 :: real)))"
proof -
  have failed: "calculate_emission_reduction fossil s = (s, Inl e)"
    if "ghg_emissions (results s) = []" and "calculate_lca s = Inl e"
    using that by (simp add: calculate_emission_reduction_def)
  have reduction: "calculate_emission_reduction fossil s =
      (s1, if (functional_unit s1 \<noteq> ''MJ'' \<and> energy_density up = 0) \<or> baseline = 0
           then Inl ZeroDivisionError
           else Inr ((baseline - saf_emissions) / baseline * 100))"
    if "(if ghg_emissions (results s) = [] then calculate_lca s else Inr s) = Inr s1"
      and "map_of (ghg_emissions (results s1)) ''total'' = Some t"
      and "use_phase_data s1 = Some up"
    using that
    unfolding calculate_emission_reduction_def Let_def baseline_def saf_emissions_def
    by (cases "energy_density up = 0")
       (auto simp add: saf_emissions_mj_def dict_index_def)
  have "(89 - 20) / 89 * 100 = (6900 / 89 :: real)" "abs (6900 / 89 - 77.53) < (0.005 :: real)"
    by simp_all
  with failed reduction show ?thesis
    by (auto simp add: baseline_def get_default_def)
qed

text \<open>
  A parameter set with 20 g CO2e per MJ and empty results: the calculation runs
  first, the reduction is 6900 / 89 against the default and 80 against a baseline of
  100, and a baseline of 0 raises.
\<close>

theorem emission_reduction_value_witness:
  "\<exists>s1. calculate_lca twenty_state = Inr s1 \<and>
     map_of (ghg_emissions (results s1)) ''total'' = Some 0.02 \<and>
     calculate_emission_reduction None twenty_state = (s1, Inr (6900 / 89)) \<and>
     calculate_emission_reduction (Some 100) twenty_state = (s1, Inr 80) \<and>
     calculate_emission_reduction (Some 0) twenty_state = (s1, Inl ZeroDivisionError)"
proof -
  have run: "\<exists>s1. calculate_lca twenty_state = Inr s1 \<and>
     map_of (ghg_emissions (results s1)) ''total'' = Some 0.02 \<and>
     use_phase_data s1 = Some \<lparr> combustion_emissions = 0.0, energy_density = 50.0 \<rparr> \<and>
     functional_unit s1 = ''MJ''"
    by (simp add: twenty_state_def set_distribution_data_def set_conversion_data_def
        set_carbon_capture_data_def set_use_phase_data_def example_state_def
        calculate_lca_def calculate_stages_def normalization_factor_def get_default_def Let_def)
  then obtain s1 where s1: "calculate_lca twenty_state = Inr s1"
     "map_of (ghg_emissions (results s1)) ''total'' = Some 0.02"
     "use_phase_data s1 = Some \<lparr> combustion_emissions = 0.0, energy_density = 50.0 \<rparr>"
     "functional_unit s1 = ''MJ''"
    by blast
  have empty: "ghg_emissions (results twenty_state) = []"
    by (simp add: twenty_state_def set_distribution_data_def set_conversion_data_def
        set_carbon_capture_data_def set_use_phase_data_def example_state_def)
  from emission_reduction_value [where s = twenty_state and ?s1.0 = s1 and t = "0.02"
      and up = "\<lparr> combustion_emissions = 0.0, energy_density = 50.0 \<rparr>" and fossil = None]
    emission_reduction_value [where s = twenty_state and ?s1.0 = s1 and t = "0.02"
      and up = "\<lparr> combustion_emissions = 0.0, energy_density = 50.0 \<rparr>" and fossil = "Some 100"]
    emission_reduction_value [where s = twenty_state and ?s1.0 = s1 and t = "0.02"
      and up = "\<lparr> combustion_emissions = 0.0, energy_density = 50.0 \<rparr>" and fossil = "Some 0"]
    s1 empty
  show ?thesis
    by (simp add: get_default_def)
qed

end
